theory Spec2Isabelle
  imports Main
begin

section \<open>Python values and exceptions\<close>

text \<open>
  The values that reach \<^verbatim>\<open>ArrayField\<close> (django_pg/models/fields/array.py) are
  ordinary Python objects. The model keeps the kinds the code distinguishes: \<^verbatim>\<open>None\<close>,
  booleans, integers, floats, strings, lists and tuples. A float is a finite value
  \<open>m * 2 ^ e\<close> (\<open>Finite m e\<close>), an infinity or a NaN; a string is a list of characters
  with code points below 256.
\<close>

datatype pyfloat =
    Finite int int
  | PosInf
  | NegInf
  | NaN

datatype pyval =
    PNone
  | PBool bool
  | PInt int
  | PFloat pyfloat
  | PStr string
  | PList "pyval list"
  | PTuple "pyval list"

text \<open>An exception is a value: its class and its message.\<close>

datatype error =
    TypeError string
  | ValueError string
  | OverflowError string
  | AttributeError string
  | ValidationError string

text \<open>Python's truth value, as \<^verbatim>\<open>not value\<close> tests it.\<close>

fun truthy :: "pyval \<Rightarrow> bool" where
  "truthy PNone = False"
| "truthy (PBool b) = b"
| "truthy (PInt n) = (n \<noteq> 0)"
| "truthy (PFloat (Finite m e)) = (m \<noteq> 0)"
| "truthy (PFloat f) = True"
| "truthy (PStr s) = (s \<noteq> [])"
| "truthy (PList xs) = (xs \<noteq> [])"
| "truthy (PTuple xs) = (xs \<noteq> [])"

text \<open>\<^verbatim>\<open>isinstance(value, (list, tuple))\<close>.\<close>

fun is_list_or_tuple :: "pyval \<Rightarrow> bool" where
  "is_list_or_tuple (PList xs) = True"
| "is_list_or_tuple (PTuple xs) = True"
| "is_list_or_tuple v = False"

text \<open>
  \<^verbatim>\<open>list(value)\<close>: the items of a list or a tuple, the one-character strings of a
  string; the other kinds are not iterable and raise \<^verbatim>\<open>TypeError\<close>.
\<close>

fun py_list :: "pyval \<Rightarrow> error + pyval list" where
  "py_list (PList xs) = Inr xs"
| "py_list (PTuple xs) = Inr xs"
| "py_list (PStr s) = Inr (map (\<lambda>c. PStr [c]) s)"
| "py_list v = Inl (TypeError ''object is not iterable'')"

text \<open>
  A list comprehension \<^verbatim>\<open>[g(i) for i in xs]\<close> whose body may raise: the items are
  evaluated in order and the first exception ends the comprehension.
\<close>

fun comprehension :: "('a \<Rightarrow> error + 'b) \<Rightarrow> 'a list \<Rightarrow> error + 'b list" where
  "comprehension g [] = Inr []"
| "comprehension g (i # rest) =
     (case g i of
        Inl e \<Rightarrow> Inl e
      | Inr y \<Rightarrow> (case comprehension g rest of Inl e \<Rightarrow> Inl e | Inr ys \<Rightarrow> Inr (y # ys)))"

text \<open>Sequencing of two computations that may raise.\<close>

definition and_then :: "error + 'a \<Rightarrow> ('a \<Rightarrow> error + 'b) \<Rightarrow> error + 'b" where
  "and_then r k = (case r of Inl e \<Rightarrow> Inl e | Inr x \<Rightarrow> k x)"

text \<open>The value of a computation that returned, \<open>None\<close> for one that raised.\<close>

definition returned :: "error + 'a \<Rightarrow> 'a option" where
  "returned r = (case r of Inl e \<Rightarrow> None | Inr x \<Rightarrow> Some x)"

section \<open>The sub-field\<close>

text \<open>
  \<^verbatim>\<open>self._of\<close> is any Python object. The code reaches it only through the attributes
  below, and probes \<^verbatim>\<open>create_type_sql\<close> with \<^verbatim>\<open>hasattr\<close>; an attribute the object
  does not have is \<open>None\<close>, and calling it raises \<^verbatim>\<open>AttributeError\<close>. The database
  connection \<open>'c\<close> and the colour style \<open>'s\<close> are passed through untouched.
\<close>

record ('c, 's) subfield =
  of_db_type :: "('c \<Rightarrow> error + string) option"
  of_get_prep_value :: "(pyval \<Rightarrow> error + pyval) option"
  of_to_python :: "(pyval \<Rightarrow> error + pyval) option"
  of_get_prep_lookup :: "(string \<Rightarrow> pyval \<Rightarrow> error + pyval) option"
  of_create_type_sql :: "('c \<Rightarrow> 's \<Rightarrow> bool \<Rightarrow> error + string) option"

definition call_db_type :: "('c, 's) subfield \<Rightarrow> 'c \<Rightarrow> error + string" where
  "call_db_type e connection =
     (case of_db_type e of
        None \<Rightarrow> Inl (AttributeError ''db_type'')
      | Some m \<Rightarrow> m connection)"

definition call_get_prep_value :: "('c, 's) subfield \<Rightarrow> pyval \<Rightarrow> error + pyval" where
  "call_get_prep_value e item =
     (case of_get_prep_value e of
        None \<Rightarrow> Inl (AttributeError ''get_prep_value'')
      | Some m \<Rightarrow> m item)"

definition call_to_python :: "('c, 's) subfield \<Rightarrow> pyval \<Rightarrow> error + pyval" where
  "call_to_python e i =
     (case of_to_python e of
        None \<Rightarrow> Inl (AttributeError ''to_python'')
      | Some m \<Rightarrow> m i)"

definition call_get_prep_lookup ::
  "('c, 's) subfield \<Rightarrow> string \<Rightarrow> pyval \<Rightarrow> error + pyval" where
  "call_get_prep_lookup e lookup_type i =
     (case of_get_prep_lookup e of
        None \<Rightarrow> Inl (AttributeError ''get_prep_lookup'')
      | Some m \<Rightarrow> m lookup_type i)"

section \<open>ArrayField\<close>

text \<open>
  An \<^verbatim>\<open>ArrayField\<close> instance: the sub-field saved in \<^verbatim>\<open>self._of\<close> and whatever the
  \<^verbatim>\<open>Field\<close> superclass built from the keyword arguments it was given.
\<close>

record ('c, 's, 'b) ArrayField =
  af_of :: "('c, 's) subfield"
  af_base :: 'b

subsection \<open>Construction\<close>

text \<open>
  The \<^verbatim>\<open>of\<close> argument is an instance, a class (called with no arguments to get the
  instance; the call may raise) or a South triple \<^verbatim>\<open>(name, args, kwargs)\<close>.
\<close>

datatype ('c, 's) of_arg =
    OfInstance "('c, 's) subfield"
  | OfClass "error + ('c, 's) subfield"
  | OfTriple string "pyval list" "(string \<times> pyval) list"

text \<open>
  What \<^verbatim>\<open>__init__\<close> takes from outside array.py: the flag \<^verbatim>\<open>south_installed\<close>,
  South's \<^verbatim>\<open>ask_for_it_by_name\<close> applied to the triple, Django's
  \<^verbatim>\<open>models.IntegerField\<close> (the default of \<^verbatim>\<open>of\<close>) and the superclass's
  \<^verbatim>\<open>__init__\<close>.
\<close>

record ('c, 's, 'b) environment =
  south_installed :: bool
  gf :: "string \<Rightarrow> pyval list \<Rightarrow> (string \<times> pyval) list \<Rightarrow> error + ('c, 's) of_arg"
  IntegerField :: "('c, 's) of_arg"
  super_init :: "(string \<rightharpoonup> pyval) \<Rightarrow> error + 'b"

text \<open>An object with none of the attributes: a tuple kept as \<^verbatim>\<open>self._of\<close>, for one.\<close>

definition plain_object :: "('c, 's) subfield" where
  "plain_object =
     \<lparr>of_db_type = None, of_get_prep_value = None, of_to_python = None,
      of_get_prep_lookup = None, of_create_type_sql = None\<rparr>"

text \<open>Lines 20 to 22: a triple is resolved through South when South is installed.\<close>

definition resolve_triple ::
  "('c, 's, 'b) environment \<Rightarrow> ('c, 's) of_arg \<Rightarrow> error + ('c, 's) of_arg" where
  "resolve_triple env of' =
     (case of' of
        OfTriple name args kwargs \<Rightarrow>
          (if south_installed env then gf env name args kwargs else Inr of')
      | _ \<Rightarrow> Inr of')"

text \<open>Lines 26 to 28: a class is instantiated, anything else is kept.\<close>

fun instantiate :: "('c, 's) of_arg \<Rightarrow> error + ('c, 's) subfield" where
  "instantiate (OfInstance e) = Inr e"
| "instantiate (OfClass made) = made"
| "instantiate (OfTriple name args kwargs) = Inr plain_object"

text \<open>
  \<^verbatim>\<open>__init__(self, of=models.IntegerField, **kwargs)\<close>; \<open>None\<close> for \<open>of\<close> is the
  argument left out.
\<close>

definition init ::
  "('c, 's, 'b) environment \<Rightarrow> ('c, 's) of_arg option \<Rightarrow> (string \<rightharpoonup> pyval)
     \<Rightarrow> error + ('c, 's, 'b) ArrayField" where
  "init env of_opt kwargs =
     and_then (resolve_triple env (case of_opt of None \<Rightarrow> IntegerField env | Some a \<Rightarrow> a))
       (\<lambda>of'. and_then (instantiate of')
         (\<lambda>e. and_then (super_init env (kwargs(''null'' \<mapsto> PBool True)))
           (\<lambda>b. Inr \<lparr>af_of = e, af_base = b\<rparr>)))"

subsection \<open>SQL types\<close>

definition create_type_sql ::
  "('c, 's, 'b) ArrayField \<Rightarrow> 'c \<Rightarrow> 's \<Rightarrow> bool \<Rightarrow> error + string" where
  "create_type_sql self connection style only_if_not_exists =
     (case of_create_type_sql (af_of self) of
        Some m \<Rightarrow> m connection style only_if_not_exists
      | None \<Rightarrow> Inr '''')"

definition db_type :: "('c, 's, 'b) ArrayField \<Rightarrow> 'c \<Rightarrow> error + string" where
  "db_type self connection =
     and_then (call_db_type (af_of self) connection)
       (\<lambda>db_subfield. Inr (db_subfield @ ''[]''))"

subsection \<open>Lookups\<close>

text \<open>The function returns a string, or \<^verbatim>\<open>None\<close> when no branch is taken.\<close>

definition get_db_lookup_expression ::
  "('c, 's, 'b) ArrayField \<Rightarrow> string \<Rightarrow> pyval \<Rightarrow> 'c \<Rightarrow> error + string option" where
  "get_db_lookup_expression self lookup_type value connection =
     (if lookup_type = ''exact'' then
        and_then (db_type self connection)
          (\<lambda>t. Inr (Some (''{field} = {value}::'' @ t)))
      else if lookup_type = ''contains'' then
        (if is_list_or_tuple value then
           and_then (db_type self connection)
             (\<lambda>t. Inr (Some (''{field} @> {value}::'' @ t)))
         else Inr (Some ''{value} = ANY({field})''))
      else if lookup_type = ''len'' then
        Inr (Some ''{value} = ARRAY_LENGTH({field}, 1)'')
      else Inr None)"

text \<open>
  \<^verbatim>\<open>get_prep_lookup\<close>. Two things it calls are not defined in array.py and are
  parameters: \<open>builtin_int\<close> is Python's \<^verbatim>\<open>int\<close>, which returns an integer or raises,
  and \<open>super_get_prep_lookup\<close> is the superclass's method. \<^verbatim>\<open>except ValueError\<close>
  catches the exceptions of that class and lets every other one through.
\<close>

definition get_prep_lookup ::
  "(pyval \<Rightarrow> error + int) \<Rightarrow> (string \<Rightarrow> pyval \<Rightarrow> error + pyval)
     \<Rightarrow> ('c, 's, 'b) ArrayField \<Rightarrow> string \<Rightarrow> pyval \<Rightarrow> error + pyval" where
  "get_prep_lookup builtin_int super_get_prep_lookup self lookup_type value =
     (if lookup_type = ''len'' then
        (case builtin_int value of
           Inr n \<Rightarrow> Inr (PInt n)
         | Inl (ValueError m) \<Rightarrow> Inl (TypeError ''__len only supports integers.'')
         | Inl e \<Rightarrow> Inl e)
      else if lookup_type \<notin> set [''exact'', ''contains''] then
        Inl (TypeError (''Unsupported lookup type: '' @ lookup_type))
      else
        and_then
          (if is_list_or_tuple value then
             and_then (py_list value)
               (\<lambda>items. and_then
                  (comprehension (call_get_prep_lookup (af_of self) ''exact'') items)
                  (\<lambda>prepared. Inr (PList prepared)))
           else Inr value)
          (super_get_prep_lookup lookup_type))"

subsection \<open>Values\<close>

text \<open>The \<^verbatim>\<open>for\<close> loop of \<^verbatim>\<open>get_prep_value\<close>, appending to \<^verbatim>\<open>answer\<close>.\<close>

fun prep_loop ::
  "('c, 's) subfield \<Rightarrow> pyval list \<Rightarrow> pyval list \<Rightarrow> error + pyval list" where
  "prep_loop e [] answer = Inr answer"
| "prep_loop e (item # rest) answer =
     (case call_get_prep_value e item of
        Inl x \<Rightarrow> Inl x
      | Inr p \<Rightarrow> prep_loop e rest (answer @ [p]))"

definition get_prep_value :: "('c, 's, 'b) ArrayField \<Rightarrow> pyval \<Rightarrow> error + pyval" where
  "get_prep_value self value =
     (if \<not> truthy value then Inr (PList [])
      else and_then (py_list value)
        (\<lambda>items. and_then (prep_loop (af_of self) items [])
          (\<lambda>answer. Inr (PList answer))))"

text \<open>
  \<^verbatim>\<open>to_python\<close>: the function has one \<^verbatim>\<open>return\<close>, under the \<^verbatim>\<open>isinstance\<close> test;
  for any other value it ends without one, which in Python returns \<^verbatim>\<open>None\<close>.
\<close>

definition to_python :: "('c, 's, 'b) ArrayField \<Rightarrow> pyval \<Rightarrow> error + pyval" where
  "to_python self value =
     (case value of
        PList xs \<Rightarrow>
          and_then (comprehension (call_to_python (af_of self)) xs)
            (\<lambda>ys. Inr (PList ys))
      | _ \<Rightarrow> Inr PNone)"

section \<open>Examples\<close>

text \<open>
  \<open>python_int\<close> is \<^verbatim>\<open>int(value)\<close> as CPython 3.11 computes it on the values of the
  model. An integer is itself and a boolean is 0 or 1. A finite float is truncated
  towards zero, an infinity raises \<^verbatim>\<open>OverflowError\<close> and a NaN \<^verbatim>\<open>ValueError\<close>. A
  string is stripped of the whitespace around it (tab to carriage return, space,
  U+0085 and U+00A0) and read as an optional sign followed by decimal digits, where
  single underscores may stand between digits; anything else, and a literal of more
  than 4300 digits, raises \<^verbatim>\<open>ValueError\<close>. \<^verbatim>\<open>None\<close>, lists and tuples raise
  \<^verbatim>\<open>TypeError\<close>.
\<close>

definition is_space :: "char \<Rightarrow> bool" where
  "is_space c =
     (c \<in> set [CHR '' '', CHR 0x09, CHR 0x0A, CHR 0x0B, CHR 0x0C, CHR 0x0D, CHR 0x85, CHR 0xA0])"

definition is_digit :: "char \<Rightarrow> bool" where
  "is_digit c = (c \<in> set ''0123456789'')"

definition strip :: "string \<Rightarrow> string" where
  "strip s = rev (dropWhile is_space (rev (dropWhile is_space s)))"

fun digit_groups :: "string \<Rightarrow> bool" where
  "digit_groups [] = False"
| "digit_groups [c] = is_digit c"
| "digit_groups (c # d # rest) =
     (is_digit c \<and> (if d = CHR ''_'' then digit_groups rest else digit_groups (d # rest)))"

definition digits_value :: "string \<Rightarrow> int" where
  "digits_value ds = foldl (\<lambda>acc c. 10 * acc + (of_char c - 48)) 0 ds"

definition unsigned_literal :: "string \<Rightarrow> error + int" where
  "unsigned_literal ds =
     (if digit_groups ds \<and> length (filter is_digit ds) \<le> 4300
      then Inr (digits_value (filter is_digit ds))
      else Inl (ValueError ''invalid literal for int() with base 10''))"

fun signed_literal :: "string \<Rightarrow> error + int" where
  "signed_literal [] = Inl (ValueError ''invalid literal for int() with base 10'')"
| "signed_literal (c # cs) =
     (if c = CHR ''-'' then map_sum id uminus (unsigned_literal cs)
      else if c = CHR ''+'' then unsigned_literal cs
      else unsigned_literal (c # cs))"

fun float_int :: "pyfloat \<Rightarrow> error + int" where
  "float_int (Finite m e) =
     Inr (if 0 \<le> e then m * 2 ^ nat e else sgn m * (\<bar>m\<bar> div 2 ^ nat (- e)))"
| "float_int NaN = Inl (ValueError ''cannot convert float NaN to integer'')"
| "float_int f = Inl (OverflowError ''cannot convert float infinity to integer'')"

fun python_int :: "pyval \<Rightarrow> error + int" where
  "python_int (PInt n) = Inr n"
| "python_int (PBool b) = Inr (if b then 1 else 0)"
| "python_int (PFloat f) = float_int f"
| "python_int (PStr s) = signed_literal (strip s)"
| "python_int v = Inl (TypeError ''int() argument must be a string or a number'')"

text \<open>
  Two concrete sub-fields for evaluating the definitions. \<open>integer_field\<close> follows
  Django's \<^verbatim>\<open>IntegerField\<close> on PostgreSQL: its column type is \<^verbatim>\<open>integer\<close>,
  \<^verbatim>\<open>get_prep_value\<close> is \<^verbatim>\<open>int(value)\<close> (\<^verbatim>\<open>None\<close> kept), \<^verbatim>\<open>to_python\<close> the same
  with \<^verbatim>\<open>ValidationError\<close> in place of \<^verbatim>\<open>TypeError\<close> and \<^verbatim>\<open>ValueError\<close>, and it has no
  \<^verbatim>\<open>create_type_sql\<close>. \<open>enum_field\<close> is a sub-field of a user-defined type, which
  has one. The connection is the vendor's name and the style is \<open>()\<close>.
\<close>

definition integer_get_prep_value :: "pyval \<Rightarrow> error + pyval" where
  "integer_get_prep_value value =
     (if value = PNone then Inr PNone
      else and_then (python_int value) (\<lambda>n. Inr (PInt n)))"

definition integer_to_python :: "pyval \<Rightarrow> error + pyval" where
  "integer_to_python value =
     (if value = PNone then Inr PNone
      else (case python_int value of
              Inr n \<Rightarrow> Inr (PInt n)
            | Inl (TypeError m) \<Rightarrow> Inl (ValidationError ''value must be an integer.'')
            | Inl (ValueError m) \<Rightarrow> Inl (ValidationError ''value must be an integer.'')
            | Inl e \<Rightarrow> Inl e))"

definition integer_field :: "(string, unit) subfield" where
  "integer_field =
     \<lparr>of_db_type = Some (\<lambda>connection. Inr ''integer''),
      of_get_prep_value = Some integer_get_prep_value,
      of_to_python = Some integer_to_python,
      of_get_prep_lookup = Some (\<lambda>lookup_type value. integer_get_prep_value value),
      of_create_type_sql = None\<rparr>"

definition enum_create_type_sql :: "string \<Rightarrow> unit \<Rightarrow> bool \<Rightarrow> error + string" where
  "enum_create_type_sql connection style only_if_not_exists =
     Inr (if only_if_not_exists then ''CREATE TYPE IF NOT EXISTS mood AS ENUM ()''
          else ''CREATE TYPE mood AS ENUM ()'')"

definition enum_field :: "(string, unit) subfield" where
  "enum_field =
     \<lparr>of_db_type = Some (\<lambda>connection. Inr ''mood''),
      of_get_prep_value = Some Inr,
      of_to_python = Some Inr,
      of_get_prep_lookup = Some (\<lambda>lookup_type value. Inr value),
      of_create_type_sql = Some enum_create_type_sql\<rparr>"

text \<open>
  An environment without South, whose superclass initialiser keeps the keyword
  arguments it is given, and the superclass \<^verbatim>\<open>get_prep_lookup\<close> that hands the
  operand on as it is.
\<close>

definition example_environment :: "(string, unit, string \<rightharpoonup> pyval) environment" where
  "example_environment =
     \<lparr>south_installed = False,
      gf = (\<lambda>name args kwargs. Inl (AttributeError name)),
      IntegerField = OfClass (Inr integer_field),
      super_init = (\<lambda>kwargs. Inr kwargs)\<rparr>"

definition integer_array :: "(string, unit, string \<rightharpoonup> pyval) ArrayField" where
  "integer_array = \<lparr>af_of = integer_field, af_base = [''null'' \<mapsto> PBool True]\<rparr>"

definition enum_array :: "(string, unit, string \<rightharpoonup> pyval) ArrayField" where
  "enum_array = \<lparr>af_of = enum_field, af_base = [''null'' \<mapsto> PBool True]\<rparr>"

definition plain_super_get_prep_lookup :: "string \<Rightarrow> pyval \<Rightarrow> error + pyval" where
  "plain_super_get_prep_lookup lookup_type value = Inr value"

section \<open>Properties of the building blocks\<close>

lemma prep_loop_comprehension:
  "prep_loop e xs answer =
     (case comprehension (call_get_prep_value e) xs of
        Inl x \<Rightarrow> Inl x
      | Inr ys \<Rightarrow> Inr (answer @ ys))"
  by (induction xs arbitrary: answer) (auto split: sum.splits)

lemma returned_comprehension_compose:
  "returned (and_then (comprehension f xs) (comprehension g)) =
   returned (comprehension (\<lambda>v. and_then (f v) g) xs)"
  by (induction xs) (auto simp: returned_def and_then_def split: sum.splits)

lemma comprehension_sound:
  "comprehension g xs = Inr ys \<Longrightarrow> list_all2 (\<lambda>x y. g x = Inr y) xs ys"
  by (induction xs arbitrary: ys) (auto split: sum.splits)

lemma comprehension_complete:
  "list_all2 (\<lambda>x y. g x = Inr y) xs ys \<Longrightarrow> comprehension g xs = Inr ys"
  by (induction xs ys rule: list_all2_induct) auto

lemma comprehension_error:
  "comprehension g xs = Inl e \<Longrightarrow> \<exists>i \<in> set xs. g i = Inl e"
  by (induction xs) (auto split: sum.splits)

lemma comprehension_first_error:
  "list_all2 (\<lambda>j p. g j = Inr p) pre ps \<Longrightarrow> g i = Inl e \<Longrightarrow>
   comprehension g (pre @ i # post) = Inl e"
  by (induction pre ps rule: list_all2_induct) auto

lemmas literal_defs =
  strip_def is_space_def is_digit_def digits_value_def unsigned_literal_def

section \<open>The claims\<close>

subsection \<open>Round trip of a sequence\<close>

lemma get_prep_value_items:
  "py_list value = Inr xs \<Longrightarrow> is_list_or_tuple value \<Longrightarrow>
   get_prep_value self value =
     and_then (comprehension (call_get_prep_value (af_of self)) xs) (\<lambda>ys. Inr (PList ys))"
  by (cases "value")
     (auto simp: get_prep_value_def and_then_def prep_loop_comprehension split: sum.splits)

lemma to_python_after_list:
  "and_then (and_then r (\<lambda>ys. Inr (PList ys))) (to_python self) =
   and_then (and_then r (comprehension (call_to_python (af_of self)))) (\<lambda>ys. Inr (PList ys))"
  by (simp add: and_then_def to_python_def split: sum.splits)

lemma returned_and_then_PList:
  "returned (and_then r (\<lambda>ys. Inr (PList ys))) = map_option PList (returned r)"
  by (simp add: returned_def and_then_def split: sum.splits)

text \<open>
  Claim C1. For every sub-field and every list or tuple of values, \<^verbatim>\<open>to_python\<close> of
  \<^verbatim>\<open>get_prep_value\<close> of the sequence returns exactly when preparing and then parsing
  each item in order returns, and the result is the list of those items, in the same
  order and with duplicates kept. When some item raises, both sides raise.
\<close>

theorem round_trip_elementwise:
  "returned (and_then (get_prep_value self (PList xs)) (to_python self)) =
     map_option PList
       (returned (comprehension
          (\<lambda>v. and_then (call_get_prep_value (af_of self) v) (call_to_python (af_of self))) xs))
   \<and> returned (and_then (get_prep_value self (PTuple xs)) (to_python self)) =
     map_option PList
       (returned (comprehension
          (\<lambda>v. and_then (call_get_prep_value (af_of self) v) (call_to_python (af_of self))) xs))"
  by (simp add: get_prep_value_items to_python_after_list returned_and_then_PList
        returned_comprehension_compose)

text \<open>
  The round trip on \<^verbatim>\<open>["3", 1, 1]\<close> with the integer sub-field.
\<close>

theorem round_trip_elementwise_witness:
  "returned (and_then (get_prep_value integer_array (PList [PStr ''3'', PInt 1, PInt 1]))
      (to_python integer_array)) = Some (PList [PInt 3, PInt 1, PInt 1])
   \<and> returned (comprehension
        (\<lambda>v. and_then (call_get_prep_value (af_of integer_array) v)
               (call_to_python (af_of integer_array)))
        [PStr ''3'', PInt 1, PInt 1]) = Some [PInt 3, PInt 1, PInt 1]"
proof -
  have "returned (comprehension
        (\<lambda>v. and_then (call_get_prep_value (af_of integer_array) v)
               (call_to_python (af_of integer_array)))
        [PStr ''3'', PInt 1, PInt 1]) = Some [PInt 3, PInt 1, PInt 1]"
    by (simp add: returned_def and_then_def call_get_prep_value_def call_to_python_def
          integer_array_def integer_field_def integer_get_prep_value_def
          integer_to_python_def literal_defs)
  with round_trip_elementwise [of integer_array "[PStr ''3'', PInt 1, PInt 1]"]
  show ?thesis by simp
qed

subsection \<open>Parsing\<close>

text \<open>
  Claim C2. \<^verbatim>\<open>to_python\<close> maps a list through the sub-field's \<^verbatim>\<open>to_python\<close>, but a
  value that is not a list is not handed back: the function ends without a
  \<^verbatim>\<open>return\<close> and the caller gets \<^verbatim>\<open>None\<close>. Evaluated on an array literal kept as a
  string, on a tuple and on a list.
\<close>

theorem to_python_drops_non_lists:
  "to_python integer_array (PStr ''{1,2,3}'') = Inr PNone
   \<and> to_python integer_array (PTuple [PInt 1, PInt 2]) = Inr PNone
   \<and> to_python integer_array (PList [PStr ''1'', PInt 2]) = Inr (PList [PInt 1, PInt 2])"
  by (simp add: to_python_def and_then_def integer_array_def integer_field_def
        call_to_python_def integer_to_python_def literal_defs)

subsection \<open>Construction\<close>

text \<open>
  Claim C3, as stated, fails: \<^verbatim>\<open>__init__\<close> accepts an object that has none of
  \<^verbatim>\<open>db_type\<close>, \<^verbatim>\<open>get_prep_value\<close> and \<^verbatim>\<open>to_python\<close>.
\<close>

theorem init_accepts_plain_object:
  "of_db_type (plain_object :: (string, unit) subfield) = None
   \<and> of_get_prep_value (plain_object :: (string, unit) subfield) = None
   \<and> of_to_python (plain_object :: (string, unit) subfield) = None
   \<and> init example_environment (Some (OfInstance plain_object)) Map.empty =
        Inr \<lparr>af_of = plain_object, af_base = [''null'' \<mapsto> PBool True]\<rparr>"
  by (simp add: init_def and_then_def resolve_triple_def example_environment_def
        plain_object_def)

text \<open>
  Claim C3, amended. \<^verbatim>\<open>__init__\<close> makes no check of the sub-field: given an instance
  it keeps it as it is and returns exactly when the superclass initialiser does, on the
  keyword arguments with \<^verbatim>\<open>null\<close> set. An attribute the sub-field lacks shows when the
  method that needs it is called, as \<^verbatim>\<open>AttributeError\<close>.
\<close>

theorem init_makes_no_capability_check:
  "init env (Some (OfInstance e)) kwargs =
     and_then (super_init env (kwargs(''null'' \<mapsto> PBool True)))
       (\<lambda>b. Inr \<lparr>af_of = e, af_base = b\<rparr>)
   \<and> (of_db_type e = None \<longrightarrow>
        db_type \<lparr>af_of = e, af_base = b\<rparr> connection = Inl (AttributeError ''db_type''))
   \<and> (of_get_prep_value e = None \<longrightarrow>
        get_prep_value \<lparr>af_of = e, af_base = b\<rparr> (PList (x # xs)) =
          Inl (AttributeError ''get_prep_value''))
   \<and> (of_to_python e = None \<longrightarrow>
        to_python \<lparr>af_of = e, af_base = b\<rparr> (PList (x # xs)) =
          Inl (AttributeError ''to_python''))"
  by (simp add: init_def and_then_def resolve_triple_def db_type_def call_db_type_def
        get_prep_value_def call_get_prep_value_def to_python_def call_to_python_def)

text \<open>
  An object without attributes is accepted, and \<^verbatim>\<open>db_type\<close> then raises.
\<close>

theorem init_makes_no_capability_check_witness:
  "of_db_type (plain_object :: (string, unit) subfield) = None
   \<and> init example_environment (Some (OfInstance plain_object)) [''blank'' \<mapsto> PBool True] =
        Inr \<lparr>af_of = plain_object,
             af_base = [''blank'' \<mapsto> PBool True, ''null'' \<mapsto> PBool True]\<rparr>
   \<and> db_type \<lparr>af_of = (plain_object :: (string, unit) subfield),
                af_base = [''null'' \<mapsto> PBool True]\<rparr> ''postgresql'' =
        Inl (AttributeError ''db_type'')"
  using init_makes_no_capability_check
    [of example_environment plain_object "[''blank'' \<mapsto> PBool True]"
        "[''null'' \<mapsto> PBool True]" "''postgresql''" PNone "[]"]
  by (simp add: example_environment_def and_then_def plain_object_def)

text \<open>
  Claim C9. Whatever \<^verbatim>\<open>null\<close> the caller passes, the superclass initialiser is given
  \<^verbatim>\<open>null=True\<close> and the caller's other keyword arguments unchanged, so a field that was
  built was built from \<^verbatim>\<open>null=True\<close>, and the caller's \<^verbatim>\<open>null\<close> has no effect.
\<close>

theorem init_forces_null:
  "(\<forall>self. init env of_opt kwargs = Inr self \<longrightarrow>
      (\<exists>kw. kw ''null'' = Some (PBool True)
          \<and> (\<forall>k. k \<noteq> ''null'' \<longrightarrow> kw k = kwargs k)
          \<and> super_init env kw = Inr (af_base self)))
   \<and> init env of_opt (kwargs(''null'' \<mapsto> v)) = init env of_opt kwargs"
proof -
  have "\<exists>kw. kw ''null'' = Some (PBool True)
          \<and> (\<forall>k. k \<noteq> ''null'' \<longrightarrow> kw k = kwargs k)
          \<and> super_init env kw = Inr (af_base self)"
    if "init env of_opt kwargs = Inr self" for self
  proof -
    have "super_init env (kwargs(''null'' \<mapsto> PBool True)) = Inr (af_base self)"
      using that by (auto simp: init_def and_then_def split: sum.splits)
    then show ?thesis
      by (intro exI [of _ "kwargs(''null'' \<mapsto> PBool True)"]) simp
  qed
  moreover have "init env of_opt (kwargs(''null'' \<mapsto> v)) = init env of_opt kwargs"
    by (simp add: init_def)
  ultimately show ?thesis by blast
qed

text \<open>
  With \<^verbatim>\<open>null=False\<close> passed, the field is built from \<^verbatim>\<open>null=True\<close>.
\<close>

theorem init_forces_null_witness:
  "init example_environment (Some (OfInstance integer_field)) [''null'' \<mapsto> PBool False] =
     Inr integer_array
   \<and> af_base integer_array ''null'' = Some (PBool True)
   \<and> (\<exists>kw. kw ''null'' = Some (PBool True)
          \<and> (\<forall>k. k \<noteq> ''null'' \<longrightarrow> kw k = [''null'' \<mapsto> PBool False] k)
          \<and> super_init example_environment kw = Inr (af_base integer_array))"
proof -
  have h: "init example_environment (Some (OfInstance integer_field))
             [''null'' \<mapsto> PBool False] = Inr integer_array"
    by (simp add: init_def and_then_def resolve_triple_def example_environment_def
          integer_array_def)
  have "af_base integer_array ''null'' = Some (PBool True)"
    by (simp add: integer_array_def)
  with h init_forces_null
         [of example_environment "Some (OfInstance integer_field)"
             "[''null'' \<mapsto> PBool False]" PNone]
  show ?thesis by blast
qed

text \<open>
  Claim C10. With \<^verbatim>\<open>of\<close> left out, the field is built as with
  \<^verbatim>\<open>of=models.IntegerField\<close>: the class is instantiated with no arguments, the instance
  is the sub-field, and when its column type is \<^verbatim>\<open>integer\<close> the array's is
  \<^verbatim>\<open>integer[]\<close>.
\<close>

theorem init_default_is_integer_field:
  "init env None kwargs = init env (Some (IntegerField env)) kwargs
   \<and> (\<forall>e self. IntegerField env = OfClass (Inr e) \<longrightarrow> init env None kwargs = Inr self \<longrightarrow>
        af_of self = e
        \<and> (call_db_type e connection = Inr ''integer'' \<longrightarrow>
             db_type self connection = Inr ''integer[]''))"
  by (auto simp: init_def and_then_def resolve_triple_def db_type_def split: sum.splits)

text \<open>
  The default construction in the example environment.
\<close>

theorem init_default_is_integer_field_witness:
  "IntegerField example_environment = OfClass (Inr integer_field)
   \<and> init example_environment None Map.empty = Inr integer_array
   \<and> af_of integer_array = integer_field
   \<and> call_db_type integer_field ''postgresql'' = Inr ''integer''
   \<and> db_type integer_array ''postgresql'' = Inr ''integer[]''"
proof -
  have c: "IntegerField example_environment = OfClass (Inr integer_field)"
    by (simp add: example_environment_def)
  have h: "init example_environment None Map.empty = Inr integer_array"
    by (simp add: init_def and_then_def resolve_triple_def example_environment_def
          integer_array_def)
  have d: "call_db_type integer_field ''postgresql'' = Inr ''integer''"
    by (simp add: call_db_type_def integer_field_def)
  from init_default_is_integer_field [of example_environment Map.empty "''postgresql''"] c h d
  show ?thesis by blast
qed

subsection \<open>SQL types\<close>

text \<open>
  Claim C6. The array's column type is the sub-field's column type followed by
  \<^verbatim>\<open>[]\<close> and nothing else (an exception of the sub-field is passed on); for the column
  type \<^verbatim>\<open>integer\<close> it is \<^verbatim>\<open>integer[]\<close>.
\<close>

theorem db_type_appends_brackets:
  "(\<forall>t. call_db_type (af_of self) connection = Inr t \<longrightarrow>
        db_type self connection = Inr (t @ ''[]''))
   \<and> (\<forall>e. call_db_type (af_of self) connection = Inl e \<longrightarrow>
        db_type self connection = Inl e)
   \<and> (call_db_type (af_of self) connection = Inr ''integer'' \<longrightarrow>
        db_type self connection = Inr ''integer[]'')"
  by (simp add: db_type_def and_then_def)

text \<open>
  The integer and the enum sub-field.
\<close>

theorem db_type_appends_brackets_witness:
  "call_db_type (af_of integer_array) ''postgresql'' = Inr ''integer''
   \<and> db_type integer_array ''postgresql'' = Inr ''integer[]''
   \<and> call_db_type (af_of enum_array) ''postgresql'' = Inr ''mood''
   \<and> db_type enum_array ''postgresql'' = Inr ''mood[]''"
  using db_type_appends_brackets [of integer_array "''postgresql''"]
        db_type_appends_brackets [of enum_array "''postgresql''"]
  by (simp add: integer_array_def integer_field_def enum_array_def enum_field_def
        call_db_type_def)

text \<open>
  Claim C8. \<^verbatim>\<open>create_type_sql\<close> returns the empty string when the sub-field has no
  \<^verbatim>\<open>create_type_sql\<close>, and otherwise what the sub-field's own method returns for the
  same connection, style and \<^verbatim>\<open>only_if_not_exists\<close>.
\<close>

theorem create_type_sql_delegates:
  "(of_create_type_sql (af_of self) = None \<longrightarrow>
      create_type_sql self connection style only_if_not_exists = Inr '''')
   \<and> (\<forall>m. of_create_type_sql (af_of self) = Some m \<longrightarrow>
      create_type_sql self connection style only_if_not_exists =
        m connection style only_if_not_exists)"
  by (simp add: create_type_sql_def)

text \<open>
  The integer sub-field has no such method, the enum sub-field has one.
\<close>

theorem create_type_sql_delegates_witness:
  "of_create_type_sql (af_of integer_array) = None
   \<and> create_type_sql integer_array ''postgresql'' () False = Inr ''''
   \<and> of_create_type_sql (af_of enum_array) = Some enum_create_type_sql
   \<and> create_type_sql enum_array ''postgresql'' () True =
        Inr ''CREATE TYPE IF NOT EXISTS mood AS ENUM ()''
   \<and> create_type_sql enum_array ''postgresql'' () False =
        Inr ''CREATE TYPE mood AS ENUM ()''"
  using create_type_sql_delegates [of integer_array "''postgresql''" "()" False]
        create_type_sql_delegates [of enum_array "''postgresql''" "()" True]
        create_type_sql_delegates [of enum_array "''postgresql''" "()" False]
  by (simp add: integer_array_def integer_field_def enum_array_def enum_field_def
        enum_create_type_sql_def)

subsection \<open>Lookups\<close>

text \<open>
  Claim C5. For the lookup \<^verbatim>\<open>contains\<close>, a list or tuple operand gives the containment
  template with the cast to the array's column type, and any other operand gives the
  membership template.
\<close>

theorem contains_expression:
  "(is_list_or_tuple value \<longrightarrow>
      (\<forall>t. db_type self connection = Inr t \<longrightarrow>
         get_db_lookup_expression self ''contains'' value connection =
           Inr (Some (''{field} @> {value}::'' @ t))))
   \<and> (\<not> is_list_or_tuple value \<longrightarrow>
      get_db_lookup_expression self ''contains'' value connection =
        Inr (Some ''{value} = ANY({field})''))"
  by (simp add: get_db_lookup_expression_def and_then_def)

text \<open>
  The operands \<^verbatim>\<open>[1, 2, 3]\<close> and \<^verbatim>\<open>5\<close>.
\<close>

theorem contains_expression_witness:
  "is_list_or_tuple (PList [PInt 1, PInt 2, PInt 3])
   \<and> db_type integer_array ''postgresql'' = Inr ''integer[]''
   \<and> get_db_lookup_expression integer_array ''contains'' (PList [PInt 1, PInt 2, PInt 3])
        ''postgresql'' = Inr (Some ''{field} @> {value}::integer[]'')
   \<and> \<not> is_list_or_tuple (PInt 5)
   \<and> get_db_lookup_expression integer_array ''contains'' (PInt 5) ''postgresql'' =
        Inr (Some ''{value} = ANY({field})'')"
  using contains_expression [of "PList [PInt 1, PInt 2, PInt 3]" integer_array "''postgresql''"]
        contains_expression [of "PInt 5" integer_array "''postgresql''"]
  by (simp add: integer_array_def integer_field_def db_type_def call_db_type_def and_then_def)

text \<open>
  Claim C4, as stated, fails twice. For \<^verbatim>\<open>exact\<close> on the operand \<^verbatim>\<open>["abc"]\<close> the integer
  sub-field's \<^verbatim>\<open>get_prep_lookup\<close> raises \<^verbatim>\<open>ValueError\<close>, and so does the array's. For
  \<^verbatim>\<open>len\<close> on an infinite float \<^verbatim>\<open>int\<close> raises \<^verbatim>\<open>OverflowError\<close>, which
  \<^verbatim>\<open>except ValueError\<close> lets through.
\<close>

theorem get_prep_lookup_exact_raises:
  "get_prep_lookup python_int plain_super_get_prep_lookup integer_array ''exact''
     (PList [PStr ''abc'']) = Inl (ValueError ''invalid literal for int() with base 10'')
   \<and> get_prep_lookup python_int plain_super_get_prep_lookup integer_array ''len''
     (PFloat PosInf) = Inl (OverflowError ''cannot convert float infinity to integer'')"
  by (simp add: get_prep_lookup_def and_then_def integer_array_def integer_field_def
        call_get_prep_lookup_def integer_get_prep_value_def literal_defs)

lemma get_prep_lookup_len:
  "get_prep_lookup builtin_int super_lookup self ''len'' value =
     (case builtin_int value of
        Inr n \<Rightarrow> Inr (PInt n)
      | Inl (ValueError m) \<Rightarrow> Inl (TypeError ''__len only supports integers.'')
      | Inl e \<Rightarrow> Inl e)"
  by (simp add: get_prep_lookup_def)

lemma get_prep_lookup_len_other:
  assumes "builtin_int value = Inl e" and "\<forall>m. e \<noteq> ValueError m"
  shows "get_prep_lookup builtin_int super_lookup self ''len'' value = Inl e"
  using assms by (cases e) (simp_all add: get_prep_lookup_len)

lemma get_prep_lookup_unsupported:
  "lookup_type \<notin> {''exact'', ''contains'', ''len''} \<Longrightarrow>
   get_prep_lookup builtin_int super_lookup self lookup_type value =
     Inl (TypeError (''Unsupported lookup type: '' @ lookup_type))"
  by (simp add: get_prep_lookup_def)

lemma get_prep_lookup_supported:
  assumes "lookup_type \<in> {''exact'', ''contains''}"
  shows "get_prep_lookup builtin_int super_lookup self lookup_type value =
     and_then
       (if is_list_or_tuple value then
          and_then (py_list value)
            (\<lambda>items. and_then
               (comprehension (call_get_prep_lookup (af_of self) ''exact'') items)
               (\<lambda>prepared. Inr (PList prepared)))
        else Inr value)
       (super_lookup lookup_type)"
  using assms by (auto simp: get_prep_lookup_def)

lemma get_prep_lookup_scalar:
  "lookup_type \<in> {''exact'', ''contains''} \<Longrightarrow> \<not> is_list_or_tuple value \<Longrightarrow>
   get_prep_lookup builtin_int super_lookup self lookup_type value =
     super_lookup lookup_type value"
  by (simp add: get_prep_lookup_supported and_then_def)

lemma get_prep_lookup_items:
  "lookup_type \<in> {''exact'', ''contains''} \<Longrightarrow> is_list_or_tuple value \<Longrightarrow>
   py_list value = Inr xs \<Longrightarrow>
   list_all2 (\<lambda>i p. call_get_prep_lookup (af_of self) ''exact'' i = Inr p) xs ps \<Longrightarrow>
   get_prep_lookup builtin_int super_lookup self lookup_type value =
     super_lookup lookup_type (PList ps)"
  by (simp add: get_prep_lookup_supported and_then_def comprehension_complete)

lemma get_prep_lookup_item_error:
  "lookup_type \<in> {''exact'', ''contains''} \<Longrightarrow> is_list_or_tuple value \<Longrightarrow>
   py_list value = Inr (pre @ i # post) \<Longrightarrow>
   list_all2 (\<lambda>j p. call_get_prep_lookup (af_of self) ''exact'' j = Inr p) pre ps \<Longrightarrow>
   call_get_prep_lookup (af_of self) ''exact'' i = Inl e \<Longrightarrow>
   get_prep_lookup builtin_int super_lookup self lookup_type value = Inl e"
  by (simp add: get_prep_lookup_supported and_then_def comprehension_first_error)

lemma get_prep_lookup_delegated_error:
  assumes "lookup_type \<in> {''exact'', ''contains''}"
    and "get_prep_lookup builtin_int super_lookup self lookup_type value = Inl e"
  shows "(\<exists>i. call_get_prep_lookup (af_of self) ''exact'' i = Inl e)
         \<or> (\<exists>v. super_lookup lookup_type v = Inl e)"
proof (cases "is_list_or_tuple value")
  case False
  with assms show ?thesis by (auto simp: get_prep_lookup_scalar)
next
  case True
  then obtain xs where xs: "py_list value = Inr xs"
    by (cases "value") auto
  show ?thesis
  proof (cases "comprehension (call_get_prep_lookup (af_of self) ''exact'') xs")
    case (Inl x)
    with assms True xs have "x = e"
      by (simp add: get_prep_lookup_supported and_then_def)
    with Inl comprehension_error show ?thesis by fast
  next
    case (Inr ps)
    with assms True xs have "super_lookup lookup_type (PList ps) = Inl e"
      by (simp add: get_prep_lookup_supported and_then_def)
    then show ?thesis by blast
  qed
qed

text \<open>
  Claim C4, amended. Whatever \<^verbatim>\<open>int\<close> and the superclass's \<^verbatim>\<open>get_prep_lookup\<close> do:
  \<^verbatim>\<open>get_prep_lookup\<close> raises \<^verbatim>\<open>TypeError\<close> for a lookup type other than \<^verbatim>\<open>exact\<close>,
  \<^verbatim>\<open>contains\<close> and \<^verbatim>\<open>len\<close>. For \<^verbatim>\<open>len\<close> it returns the integer that \<^verbatim>\<open>int(value)\<close>
  returns, raises \<^verbatim>\<open>TypeError\<close> when \<^verbatim>\<open>int(value)\<close> raises \<^verbatim>\<open>ValueError\<close>, and passes
  on any other exception of \<^verbatim>\<open>int(value)\<close> as it is. For \<^verbatim>\<open>exact\<close> and \<^verbatim>\<open>contains\<close> it
  raises nothing of its own: an operand that is no list or tuple goes to the
  superclass's \<^verbatim>\<open>get_prep_lookup\<close>; the items of a list or tuple are first passed, in
  order, through the sub-field's \<^verbatim>\<open>get_prep_lookup('exact', item)\<close>, the list of the
  results goes to the superclass, and the exception of the first item that raises is
  passed on. An exception is therefore the sub-field's or the superclass's.
\<close>

theorem get_prep_lookup_cases:
  "(lookup_type \<notin> {''exact'', ''contains'', ''len''} \<longrightarrow>
      get_prep_lookup builtin_int super_lookup self lookup_type value =
        Inl (TypeError (''Unsupported lookup type: '' @ lookup_type)))
   \<and> (\<forall>n. builtin_int value = Inr n \<longrightarrow>
        get_prep_lookup builtin_int super_lookup self ''len'' value = Inr (PInt n))
   \<and> (\<forall>m. builtin_int value = Inl (ValueError m) \<longrightarrow>
        get_prep_lookup builtin_int super_lookup self ''len'' value =
          Inl (TypeError ''__len only supports integers.''))
   \<and> (\<forall>e. builtin_int value = Inl e \<longrightarrow> (\<forall>m. e \<noteq> ValueError m) \<longrightarrow>
        get_prep_lookup builtin_int super_lookup self ''len'' value = Inl e)
   \<and> (lookup_type \<in> {''exact'', ''contains''} \<longrightarrow> \<not> is_list_or_tuple value \<longrightarrow>
        get_prep_lookup builtin_int super_lookup self lookup_type value =
          super_lookup lookup_type value)
   \<and> (lookup_type \<in> {''exact'', ''contains''} \<longrightarrow> is_list_or_tuple value \<longrightarrow>
        (\<forall>xs ps. py_list value = Inr xs \<longrightarrow>
           list_all2 (\<lambda>i p. call_get_prep_lookup (af_of self) ''exact'' i = Inr p) xs ps \<longrightarrow>
           get_prep_lookup builtin_int super_lookup self lookup_type value =
             super_lookup lookup_type (PList ps)))
   \<and> (lookup_type \<in> {''exact'', ''contains''} \<longrightarrow> is_list_or_tuple value \<longrightarrow>
        (\<forall>pre i post ps e. py_list value = Inr (pre @ i # post) \<longrightarrow>
           list_all2 (\<lambda>j p. call_get_prep_lookup (af_of self) ''exact'' j = Inr p) pre ps \<longrightarrow>
           call_get_prep_lookup (af_of self) ''exact'' i = Inl e \<longrightarrow>
           get_prep_lookup builtin_int super_lookup self lookup_type value = Inl e))
   \<and> (lookup_type \<in> {''exact'', ''contains''} \<longrightarrow>
        (\<forall>e. get_prep_lookup builtin_int super_lookup self lookup_type value = Inl e \<longrightarrow>
           (\<exists>i. call_get_prep_lookup (af_of self) ''exact'' i = Inl e)
           \<or> (\<exists>v. super_lookup lookup_type v = Inl e)))"
proof (intro conjI impI allI)
  show "get_prep_lookup builtin_int super_lookup self lookup_type value =
          Inl (TypeError (''Unsupported lookup type: '' @ lookup_type))"
    if "lookup_type \<notin> {''exact'', ''contains'', ''len''}"
    using that by (rule get_prep_lookup_unsupported)
  show "get_prep_lookup builtin_int super_lookup self ''len'' value = Inr (PInt n)"
    if "builtin_int value = Inr n" for n
    using that by (simp add: get_prep_lookup_len)
  show "get_prep_lookup builtin_int super_lookup self ''len'' value =
          Inl (TypeError ''__len only supports integers.'')"
    if "builtin_int value = Inl (ValueError m)" for m
    using that by (simp add: get_prep_lookup_len)
  show "get_prep_lookup builtin_int super_lookup self ''len'' value = Inl e"
    if "builtin_int value = Inl e" "\<forall>m. e \<noteq> ValueError m" for e
    using that by (rule get_prep_lookup_len_other)
  show "get_prep_lookup builtin_int super_lookup self lookup_type value =
          super_lookup lookup_type value"
    if "lookup_type \<in> {''exact'', ''contains''}" "\<not> is_list_or_tuple value"
    using that by (rule get_prep_lookup_scalar)
  show "get_prep_lookup builtin_int super_lookup self lookup_type value =
          super_lookup lookup_type (PList ps)"
    if "lookup_type \<in> {''exact'', ''contains''}" "is_list_or_tuple value"
       "py_list value = Inr xs"
       "list_all2 (\<lambda>i p. call_get_prep_lookup (af_of self) ''exact'' i = Inr p) xs ps"
    for xs ps
    using that by (rule get_prep_lookup_items)
  show "get_prep_lookup builtin_int super_lookup self lookup_type value = Inl e"
    if "lookup_type \<in> {''exact'', ''contains''}" "is_list_or_tuple value"
       "py_list value = Inr (pre @ i # post)"
       "list_all2 (\<lambda>j p. call_get_prep_lookup (af_of self) ''exact'' j = Inr p) pre ps"
       "call_get_prep_lookup (af_of self) ''exact'' i = Inl e"
    for pre i post ps e
    using that by (rule get_prep_lookup_item_error)
  show "(\<exists>i. call_get_prep_lookup (af_of self) ''exact'' i = Inl e)
        \<or> (\<exists>v. super_lookup lookup_type v = Inl e)"
    if "lookup_type \<in> {''exact'', ''contains''}"
       "get_prep_lookup builtin_int super_lookup self lookup_type value = Inl e"
    for e
    using that by (rule get_prep_lookup_delegated_error)
qed

text \<open>
  With \<open>python_int\<close> and the integer sub-field: the lookups \<^verbatim>\<open>startswith\<close>; \<^verbatim>\<open>len\<close> on
  \<^verbatim>\<open>"4"\<close>, on \<^verbatim>\<open>"abc"\<close> and on \<^verbatim>\<open>None\<close>; \<^verbatim>\<open>contains\<close> on \<^verbatim>\<open>5\<close>; \<^verbatim>\<open>exact\<close> on
  \<^verbatim>\<open>("1", 2)\<close> and on \<^verbatim>\<open>[1, "x", 2]\<close>, whose second item raises.
\<close>

theorem get_prep_lookup_cases_witness:
  "''startswith'' \<notin> {''exact'', ''contains'', ''len''}
   \<and> get_prep_lookup python_int plain_super_get_prep_lookup integer_array ''startswith''
        (PInt 1) = Inl (TypeError ''Unsupported lookup type: startswith'')
   \<and> python_int (PStr ''4'') = Inr 4
   \<and> get_prep_lookup python_int plain_super_get_prep_lookup integer_array ''len''
        (PStr ''4'') = Inr (PInt 4)
   \<and> python_int (PStr ''abc'') = Inl (ValueError ''invalid literal for int() with base 10'')
   \<and> get_prep_lookup python_int plain_super_get_prep_lookup integer_array ''len''
        (PStr ''abc'') = Inl (TypeError ''__len only supports integers.'')
   \<and> python_int PNone = Inl (TypeError ''int() argument must be a string or a number'')
   \<and> get_prep_lookup python_int plain_super_get_prep_lookup integer_array ''len'' PNone =
        Inl (TypeError ''int() argument must be a string or a number'')
   \<and> ''contains'' \<in> {''exact'', ''contains''} \<and> \<not> is_list_or_tuple (PInt 5)
   \<and> get_prep_lookup python_int plain_super_get_prep_lookup integer_array ''contains''
        (PInt 5) = Inr (PInt 5)
   \<and> ''exact'' \<in> {''exact'', ''contains''}
   \<and> is_list_or_tuple (PTuple [PStr ''1'', PInt 2])
   \<and> get_prep_lookup python_int plain_super_get_prep_lookup integer_array ''exact''
        (PTuple [PStr ''1'', PInt 2]) = Inr (PList [PInt 1, PInt 2])
   \<and> is_list_or_tuple (PList [PInt 1, PStr ''x'', PInt 2])
   \<and> get_prep_lookup python_int plain_super_get_prep_lookup integer_array ''exact''
        (PList [PInt 1, PStr ''x'', PInt 2]) =
          Inl (ValueError ''invalid literal for int() with base 10'')
   \<and> ((\<exists>i. call_get_prep_lookup (af_of integer_array) ''exact'' i =
              Inl (ValueError ''invalid literal for int() with base 10''))
        \<or> (\<exists>v. plain_super_get_prep_lookup ''exact'' v =
              Inl (ValueError ''invalid literal for int() with base 10'')))"
proof -
  have a: "''startswith'' \<notin> {''exact'', ''contains'', ''len''}" by simp
  have b: "python_int (PStr ''4'') = Inr 4" by (simp add: literal_defs)
  have c: "python_int (PStr ''abc'') =
             Inl (ValueError ''invalid literal for int() with base 10'')"
    by (simp add: literal_defs)
  have n: "python_int PNone = Inl (TypeError ''int() argument must be a string or a number'')"
    by simp
  have n': "TypeError ''int() argument must be a string or a number'' \<noteq> ValueError m" for m
    by simp
  have d: "''contains'' \<in> {''exact'', ''contains''}" "\<not> is_list_or_tuple (PInt 5)"
    by simp_all
  have e: "''exact'' \<in> {''exact'', ''contains''}"
    "is_list_or_tuple (PTuple [PStr ''1'', PInt 2])"
    "py_list (PTuple [PStr ''1'', PInt 2]) = Inr [PStr ''1'', PInt 2]"
    by simp_all
  have f: "list_all2 (\<lambda>i p. call_get_prep_lookup (af_of integer_array) ''exact'' i = Inr p)
             [PStr ''1'', PInt 2] [PInt 1, PInt 2]"
    by (simp add: call_get_prep_lookup_def integer_array_def integer_field_def
          integer_get_prep_value_def and_then_def literal_defs)
  have g: "is_list_or_tuple (PList [PInt 1, PStr ''x'', PInt 2])"
    "py_list (PList [PInt 1, PStr ''x'', PInt 2]) = Inr ([PInt 1] @ PStr ''x'' # [PInt 2])"
    by simp_all
  have h: "list_all2 (\<lambda>j p. call_get_prep_lookup (af_of integer_array) ''exact'' j = Inr p)
             [PInt 1] [PInt 1]"
    by (simp add: call_get_prep_lookup_def integer_array_def integer_field_def
          integer_get_prep_value_def and_then_def)
  have k: "call_get_prep_lookup (af_of integer_array) ''exact'' (PStr ''x'') =
             Inl (ValueError ''invalid literal for int() with base 10'')"
    by (simp add: call_get_prep_lookup_def integer_array_def integer_field_def
          integer_get_prep_value_def and_then_def literal_defs)
  note t = get_prep_lookup_cases [where builtin_int = python_int
             and super_lookup = plain_super_get_prep_lookup and self = integer_array]
  have "get_prep_lookup python_int plain_super_get_prep_lookup integer_array ''startswith''
          (PInt 1) = Inl (TypeError (''Unsupported lookup type: '' @ ''startswith''))"
    by (rule t [THEN conjunct1, rule_format, OF a])
  then have 1: "get_prep_lookup python_int plain_super_get_prep_lookup integer_array
          ''startswith'' (PInt 1) = Inl (TypeError ''Unsupported lookup type: startswith'')"
    by (simp only: append.simps)
  have 2: "get_prep_lookup python_int plain_super_get_prep_lookup integer_array ''len''
          (PStr ''4'') = Inr (PInt 4)"
    by (rule t [THEN conjunct2, THEN conjunct1, rule_format, OF b])
  have 3: "get_prep_lookup python_int plain_super_get_prep_lookup integer_array ''len''
          (PStr ''abc'') = Inl (TypeError ''__len only supports integers.'')"
    by (rule t [THEN conjunct2, THEN conjunct2, THEN conjunct1, rule_format, OF c])
  have 4: "get_prep_lookup python_int plain_super_get_prep_lookup integer_array ''len'' PNone =
          Inl (TypeError ''int() argument must be a string or a number'')"
    by (rule t [THEN conjunct2, THEN conjunct2, THEN conjunct2, THEN conjunct1,
                rule_format, OF n n'])
  have "get_prep_lookup python_int plain_super_get_prep_lookup integer_array ''contains''
          (PInt 5) = plain_super_get_prep_lookup ''contains'' (PInt 5)"
    by (rule t [THEN conjunct2, THEN conjunct2, THEN conjunct2, THEN conjunct2,
                THEN conjunct1, rule_format, OF d])
  then have 5: "get_prep_lookup python_int plain_super_get_prep_lookup integer_array
          ''contains'' (PInt 5) = Inr (PInt 5)"
    by (simp only: plain_super_get_prep_lookup_def)
  have "get_prep_lookup python_int plain_super_get_prep_lookup integer_array ''exact''
          (PTuple [PStr ''1'', PInt 2]) =
        plain_super_get_prep_lookup ''exact'' (PList [PInt 1, PInt 2])"
    by (rule t [THEN conjunct2, THEN conjunct2, THEN conjunct2, THEN conjunct2,
                THEN conjunct2, THEN conjunct1, rule_format, OF e f])
  then have 6: "get_prep_lookup python_int plain_super_get_prep_lookup integer_array
          ''exact'' (PTuple [PStr ''1'', PInt 2]) = Inr (PList [PInt 1, PInt 2])"
    by (simp only: plain_super_get_prep_lookup_def)
  have "get_prep_lookup python_int plain_super_get_prep_lookup integer_array ''exact''
          (PList [PInt 1, PStr ''x'', PInt 2]) =
        Inl (ValueError ''invalid literal for int() with base 10'')"
    by (rule t [THEN conjunct2, THEN conjunct2, THEN conjunct2, THEN conjunct2,
                THEN conjunct2, THEN conjunct2, THEN conjunct1, rule_format,
                OF e(1) g h k])
  note 7 = this
  have 8: "(\<exists>i. call_get_prep_lookup (af_of integer_array) ''exact'' i =
              Inl (ValueError ''invalid literal for int() with base 10''))
        \<or> (\<exists>v. plain_super_get_prep_lookup ''exact'' v =
              Inl (ValueError ''invalid literal for int() with base 10''))"
    by (rule t [THEN conjunct2, THEN conjunct2, THEN conjunct2, THEN conjunct2,
                THEN conjunct2, THEN conjunct2, THEN conjunct2, rule_format, OF e(1) 7])
  show ?thesis
    by (intro conjI) (rule a b c n d e g 1 2 3 4 5 6 7 8)+
qed

subsection \<open>Preparing\<close>

text \<open>
  Claim C7. For every value that is false in Python (\<^verbatim>\<open>None\<close>, an empty list, tuple or
  string, zero, \<^verbatim>\<open>False\<close>) \<^verbatim>\<open>get_prep_value\<close> returns the empty list, and for no value
  does it return \<^verbatim>\<open>None\<close>.
\<close>

theorem get_prep_value_falsy:
  "(\<not> truthy value \<longrightarrow> get_prep_value self value = Inr (PList []))
   \<and> get_prep_value self value \<noteq> Inr PNone"
  by (simp add: get_prep_value_def and_then_def split: sum.splits)

text \<open>
  The six false values.
\<close>

theorem get_prep_value_falsy_witness:
  "\<not> truthy PNone \<and> get_prep_value integer_array PNone = Inr (PList [])
   \<and> \<not> truthy (PList []) \<and> get_prep_value integer_array (PList []) = Inr (PList [])
   \<and> \<not> truthy (PTuple []) \<and> get_prep_value integer_array (PTuple []) = Inr (PList [])
   \<and> \<not> truthy (PStr []) \<and> get_prep_value integer_array (PStr []) = Inr (PList [])
   \<and> \<not> truthy (PInt 0) \<and> get_prep_value integer_array (PInt 0) = Inr (PList [])
   \<and> \<not> truthy (PBool False) \<and> get_prep_value integer_array (PBool False) = Inr (PList [])"
  using get_prep_value_falsy [of PNone integer_array]
        get_prep_value_falsy [of "PList []" integer_array]
        get_prep_value_falsy [of "PTuple []" integer_array]
        get_prep_value_falsy [of "PStr []" integer_array]
        get_prep_value_falsy [of "PInt 0" integer_array]
        get_prep_value_falsy [of "PBool False" integer_array]
  by simp

end
